theory Spec2Isabelle
  imports Main
begin

section \<open>The alarm data model (alarm\_sink.py)\<close>

text \<open>
  \<^verbatim>\<open>class PerceivedSeverity(Enum)\<close>: a plain \<^verbatim>\<open>Enum\<close>, whose members carry the
  numeric codes 1 to 6 as their \<^verbatim>\<open>.value\<close>.
\<close>

datatype PerceivedSeverity = CLEARED | INDETERMINATE | MINOR | WARNING | MAJOR | CRITICAL

fun severity_value :: "PerceivedSeverity \<Rightarrow> int" where
  "severity_value CLEARED = 1"
| "severity_value INDETERMINATE = 2"
| "severity_value MINOR = 3"
| "severity_value WARNING = 4"
| "severity_value MAJOR = 5"
| "severity_value CRITICAL = 6"

text \<open>
  The Python objects that meet in a comparison of \<^verbatim>\<open>submit_alarm\<close>: an \<^verbatim>\<open>int\<close> and a
  member of the enumeration. \<^verbatim>\<open>PerceivedSeverity\<close> derives from \<^verbatim>\<open>Enum\<close>, not from
  \<^verbatim>\<open>IntEnum\<close>, so a member is equal to itself only and never to an \<^verbatim>\<open>int\<close>:
  \<^verbatim>\<open>1 != PerceivedSeverity.CLEARED\<close> is \<^verbatim>\<open>True\<close>.
\<close>

datatype pyobj = PyInt int | PyEnum PerceivedSeverity

definition py_ne :: "pyobj \<Rightarrow> pyobj \<Rightarrow> bool" where
  "py_ne x y = (x \<noteq> y)"

datatype error = ValueError | AttributeError | KeyError

text \<open>
  \<^verbatim>\<open>AlarmId\<close> is a named tuple of four fields; \<^verbatim>\<open>specific_problem\<close> may be
  \<^verbatim>\<open>None\<close>. An \<^verbatim>\<open>Alarm\<close> copies the four fields of its \<^verbatim>\<open>AlarmId\<close> and adds its own,
  so it is the record extended. The fields \<open>severity\<close> and \<open>alarm_text\<close> are the
  attributes \<^verbatim>\<open>_severity\<close> and \<^verbatim>\<open>_alarm_text\<close>, which the properties of the same
  names return.
\<close>

record AlarmId =
  device :: string
  managed_object :: string
  type :: string
  specific_problem :: "string option"

record Alarm = AlarmId +
  severity :: PerceivedSeverity
  alarm_text :: string
  timestamp :: string
  impacted_objects :: "string list option"
  related_alarms :: "AlarmId list option"
  root_cause_objects :: "string list option"

text \<open>
  \<^verbatim>\<open>Alarm.__init__\<close>. The clock (\<^verbatim>\<open>datetime.datetime.now().isoformat()\<close>) is the
  parameter \<open>now\<close>; \<^verbatim>\<open>timestamp or now\<close> takes \<open>now\<close> for \<^verbatim>\<open>None\<close> and for the
  empty string. The constructor stores \<^verbatim>\<open>severity\<close> and \<^verbatim>\<open>alarm_text\<close> in the
  underscored attributes directly: no property setter runs.
\<close>

definition Alarm_init ::
  "string \<Rightarrow> AlarmId \<Rightarrow> PerceivedSeverity \<Rightarrow> string \<Rightarrow> string option \<Rightarrow>
   string list option \<Rightarrow> AlarmId list option \<Rightarrow> string list option \<Rightarrow> Alarm" where
  "Alarm_init now alarm_id sev text ts impacted related root_cause =
     \<lparr>device = device alarm_id,
      managed_object = managed_object alarm_id,
      type = type alarm_id,
      specific_problem = specific_problem alarm_id,
      severity = sev,
      alarm_text = text,
      timestamp = (case ts of None \<Rightarrow> now | Some t \<Rightarrow> if t = [] then now else t),
      impacted_objects = impacted,
      related_alarms = related,
      root_cause_objects = root_cause\<rparr>"

text \<open>The property \<^verbatim>\<open>cleared\<close> and its setter, which acts on a true value only.\<close>

definition cleared :: "Alarm \<Rightarrow> bool" where
  "cleared alarm = (severity alarm = CLEARED)"

definition cleared_setter :: "Alarm \<Rightarrow> bool \<Rightarrow> Alarm" where
  "cleared_setter alarm v = (if v then alarm\<lparr>severity := CLEARED\<rparr> else alarm)"


text \<open>The setter of \<^verbatim>\<open>alarm_text\<close>, with Python's slice \<^verbatim>\<open>value[:n]\<close> as \<open>take\<close>.\<close>

definition max_length :: nat where
  "max_length = 1024"

definition truncated :: string where
  "truncated = '' .. [truncated]''"

definition alarm_text_setter :: "Alarm \<Rightarrow> string \<Rightarrow> Alarm" where
  "alarm_text_setter alarm v =
     (if length v > max_length
      then alarm\<lparr>alarm_text := take (max_length - length truncated) v @ truncated\<rparr>
      else alarm\<lparr>alarm_text := v\<rparr>)"

definition ncs_severity :: "Alarm \<Rightarrow> int" where
  "ncs_severity alarm = severity_value (severity alarm)"

section \<open>The alarm list\<close>

text \<open>
  The alarm list of the operational store, as \<^verbatim>\<open>submit_alarm\<close> and \<^verbatim>\<open>purge_alarm\<close> use
  it through the transaction: a list keyed by (device, type, managed object, specific
  problem). An entry holds the leaves the code reads and writes; a leaf that was never
  written reads as \<^verbatim>\<open>None\<close>. \<open>last_perceived_severity\<close> holds the numeric code that
  \<^verbatim>\<open>.value\<close> returns. The related alarms are a list of keys, the fourth as the code
  passes it; the status changes are a list keyed by their time.
\<close>

type_synonym alarm_key = "string \<times> string \<times> string \<times> string"

type_synonym related_key = "string \<times> string \<times> string \<times> string option"

record status_change_entry =
  perceived_severity :: "int option"
  sc_alarm_text :: "string option"

record alarm_entry =
  is_cleared :: "bool option"
  last_alarm_text :: "string option"
  last_perceived_severity :: "int option"
  last_status_change :: "string option"
  al_impacted_objects :: "string list option"
  al_root_cause_objects :: "string list option"
  al_related_alarms :: "related_key list"
  status_change :: "(string \<times> status_change_entry) list"

type_synonym alarm_list = "alarm_key \<rightharpoonup> alarm_entry"

text \<open>\<^verbatim>\<open>x or ''\<close> on an optional string.\<close>

fun or_empty :: "string option \<Rightarrow> string" where
  "or_empty None = []"
| "or_empty (Some s) = s"

text \<open>
  \<^verbatim>\<open>create\<close> on a keyed list returns the element with the given key and creates it,
  with no leaf set, when there is none: \<^verbatim>\<open>submit_alarm\<close> calls it on the alarm list
  for alarms that exist and reads their leaves from what it returns.
\<close>

definition new_entry :: alarm_entry where
  "new_entry =
     \<lparr>is_cleared = None, last_alarm_text = None, last_perceived_severity = None,
      last_status_change = None, al_impacted_objects = None, al_root_cause_objects = None,
      al_related_alarms = [], status_change = []\<rparr>"

definition alarm_list_exists :: "alarm_list \<Rightarrow> alarm_key \<Rightarrow> bool" where
  "alarm_list_exists alarm_list key = (alarm_list key \<noteq> None)"

definition alarm_list_create :: "alarm_list \<Rightarrow> alarm_key \<Rightarrow> alarm_entry" where
  "alarm_list_create alarm_list key =
     (case alarm_list key of None \<Rightarrow> new_entry | Some al \<Rightarrow> al)"

definition related_alarms_create :: "related_key list \<Rightarrow> related_key \<Rightarrow> related_key list" where
  "related_alarms_create rs key = (if key \<in> set rs then rs else rs @ [key])"

definition new_status_change :: status_change_entry where
  "new_status_change = \<lparr>perceived_severity = None, sc_alarm_text = None\<rparr>"

definition status_change_create ::
  "(string \<times> status_change_entry) list \<Rightarrow> string \<Rightarrow> (string \<times> status_change_entry) list" where
  "status_change_create scs t =
     (if t \<in> set (map fst scs) then scs else scs @ [(t, new_status_change)])"

text \<open>Writing the leaves of the status change with key \<open>t\<close>.\<close>

fun status_change_write ::
  "(status_change_entry \<Rightarrow> status_change_entry) \<Rightarrow> string \<Rightarrow>
   (string \<times> status_change_entry) list \<Rightarrow> (string \<times> status_change_entry) list" where
  "status_change_write f t [] = []"
| "status_change_write f t ((k, sc) # scs) =
     (if k = t then (k, f sc) # scs else (k, sc) # status_change_write f t scs)"

text \<open>
  \<^verbatim>\<open>del alarm_list[key]\<close> raises \<^verbatim>\<open>KeyError\<close> when there is no such element.
\<close>

definition alarm_list_del :: "alarm_list \<Rightarrow> alarm_key \<Rightarrow> error + alarm_list" where
  "alarm_list_del alarm_list key =
     (if alarm_list key = None then Inl KeyError else Inr (alarm_list(key := None)))"

section \<open>AlarmSink\<close>

text \<open>
  A call opens a write transaction on the alarm list and either returns without
  applying it, so that what it wrote is dropped with the transaction, or applies it:
  \<open>Applied\<close> carries the alarm list that \<^verbatim>\<open>t_write.apply()\<close> submits. An exception
  leaves the \<^verbatim>\<open>with\<close> block before \<^verbatim>\<open>apply\<close>.
\<close>

datatype outcome = Returned | Applied alarm_list

text \<open>
  The test \<^verbatim>\<open>exit if nothing has changed\<close> of \<^verbatim>\<open>submit_alarm\<close>, with the short
  circuits of \<^verbatim>\<open>and\<close> and \<^verbatim>\<open>or\<close>: \<^verbatim>\<open>.value\<close> is read only when the cleared states
  agree and the alarm is not cleared, and fails on a leaf that reads \<^verbatim>\<open>None\<close>.
\<close>

definition nothing_changed :: "alarm_entry \<Rightarrow> Alarm \<Rightarrow> error + bool" where
  "nothing_changed al alarm =
     (if is_cleared al = Some (cleared alarm) then
        if cleared alarm then Inr True
        else (case last_perceived_severity al of
                None \<Rightarrow> Inl AttributeError
              | Some v \<Rightarrow>
                  Inr (v = ncs_severity alarm \<and> last_alarm_text al = Some (alarm_text alarm)))
      else Inr False)"

text \<open>
  The writes of \<^verbatim>\<open>submit_alarm\<close> to the entry \<open>al\<close>, in the order of the code. The
  guard of \<open>last_perceived_severity\<close> compares the integer \<^verbatim>\<open>alarm.ncs_severity\<close> with
  the enumeration member \<^verbatim>\<open>PerceivedSeverity.CLEARED\<close>.
\<close>

definition related_key_of :: "AlarmId \<Rightarrow> related_key" where
  "related_key_of ra = (device ra, type ra, managed_object ra, specific_problem ra)"

definition write_entry :: "alarm_entry \<Rightarrow> Alarm \<Rightarrow> alarm_entry" where
  "write_entry al alarm =
     (let al1 = al\<lparr>is_cleared := Some (cleared alarm),
                   last_alarm_text := Some (alarm_text alarm)\<rparr>;
          al2 = (if py_ne (PyInt (ncs_severity alarm)) (PyEnum CLEARED)
                 then al1\<lparr>last_perceived_severity := Some (ncs_severity alarm)\<rparr>
                 else al1);
          al3 = al2\<lparr>last_status_change := Some (timestamp alarm),
                    al_impacted_objects := impacted_objects alarm,
                    al_root_cause_objects := root_cause_objects alarm\<rparr>;
          al4 = (case related_alarms alarm of
                   None \<Rightarrow> al3
                 | Some ras \<Rightarrow>
                     al3\<lparr>al_related_alarms :=
                           foldl related_alarms_create (al_related_alarms al3)
                             (map related_key_of ras)\<rparr>)
      in al4\<lparr>status_change :=
               status_change_write
                 (\<lambda>sc. sc\<lparr>perceived_severity := Some (ncs_severity alarm),
                          sc_alarm_text := Some (alarm_text alarm)\<rparr>)
                 (timestamp alarm)
                 (status_change_create (status_change al4) (timestamp alarm))\<rparr>)"

definition submit_alarm :: "alarm_list \<Rightarrow> Alarm \<Rightarrow> error + outcome" where
  "submit_alarm alarm_list alarm =
     (let key = (device alarm, type alarm, managed_object alarm,
                 or_empty (specific_problem alarm))
      in if cleared alarm \<and> \<not> alarm_list_exists alarm_list key then Inr Returned
         else
           let al = alarm_list_create alarm_list key
           in case nothing_changed al alarm of
                Inl e \<Rightarrow> Inl e
              | Inr True \<Rightarrow> Inr Returned
              | Inr False \<Rightarrow> Inr (Applied (alarm_list(key \<mapsto> write_entry al alarm))))"

text \<open>\<^verbatim>\<open>purge_alarm\<close>: the \<^verbatim>\<open>KeyError\<close> of the deletion is caught and passed over.\<close>

definition purge_alarm :: "alarm_list \<Rightarrow> AlarmId \<Rightarrow> error + outcome" where
  "purge_alarm alarm_list alarm_id =
     (case alarm_list_del alarm_list
             (device alarm_id, type alarm_id, managed_object alarm_id,
              or_empty (specific_problem alarm_id)) of
        Inl KeyError \<Rightarrow> Inr Returned
      | Inl e \<Rightarrow> Inl e
      | Inr alarm_list' \<Rightarrow> Inr (Applied alarm_list'))"

text \<open>
  The alarm list after a call: the one the transaction applied, or the one before when
  the call returned without applying or raised.
\<close>

definition store_after :: "alarm_list \<Rightarrow> error + outcome \<Rightarrow> alarm_list" where
  "store_after alarm_list r =
     (case r of Inr (Applied alarm_list') \<Rightarrow> alarm_list' | _ \<Rightarrow> alarm_list)"

section \<open>Example submissions\<close>

text \<open>
  The alarm of the module's own example, raised at time \<open>t1\<close> and cleared at \<open>t2\<close>, and
  the alarm lists these two submissions leave, starting from the empty one.
\<close>

definition c0_id :: AlarmId where
  "c0_id = \<lparr>device = ''c0'', managed_object = ''/devices/device{c0}'',
            type = ''connection-failure'', specific_problem = None\<rparr>"

definition c0_key :: alarm_key where
  "c0_key = (''c0'', ''connection-failure'', ''/devices/device{c0}'', [])"

definition minor_alarm :: Alarm where
  "minor_alarm = Alarm_init ''t0'' c0_id MINOR ''link down'' (Some ''t1'') None None None"

definition clear_alarm :: Alarm where
  "clear_alarm =
     cleared_setter (Alarm_init ''t0'' c0_id MINOR ''link down'' (Some ''t2'') None None None) True"

definition raised_list :: alarm_list where
  "raised_list = store_after Map.empty (submit_alarm Map.empty minor_alarm)"

definition cleared_list :: alarm_list where
  "cleared_list = store_after raised_list (submit_alarm raised_list clear_alarm)"

definition raised_entry :: alarm_entry where
  "raised_entry =
     \<lparr>is_cleared = Some False, last_alarm_text = Some ''link down'',
      last_perceived_severity = Some 3, last_status_change = Some ''t1'',
      al_impacted_objects = None, al_root_cause_objects = None, al_related_alarms = [],
      status_change =
        [(''t1'', \<lparr>perceived_severity = Some 3, sc_alarm_text = Some ''link down''\<rparr>)]\<rparr>"

definition cleared_entry :: alarm_entry where
  "cleared_entry =
     \<lparr>is_cleared = Some True, last_alarm_text = Some ''link down'',
      last_perceived_severity = Some 1, last_status_change = Some ''t2'',
      al_impacted_objects = None, al_root_cause_objects = None, al_related_alarms = [],
      status_change =
        [(''t1'', \<lparr>perceived_severity = Some 3, sc_alarm_text = Some ''link down''\<rparr>),
         (''t2'', \<lparr>perceived_severity = Some 1, sc_alarm_text = Some ''link down''\<rparr>)]\<rparr>"

definition major_alarm :: Alarm where
  "major_alarm = Alarm_init ''t0'' c0_id MAJOR ''link down'' (Some ''t3'') None None None"

definition clear_alarm_up :: Alarm where
  "clear_alarm_up =
     cleared_setter (Alarm_init ''t0'' c0_id MINOR ''link up'' (Some ''t3'') None None None) True"

definition c1_id :: AlarmId where
  "c1_id = \<lparr>device = ''c1'', managed_object = ''/devices/device{c1}'',
            type = ''connection-failure'', specific_problem = None\<rparr>"

definition c1_alarm :: Alarm where
  "c1_alarm =
     Alarm_init ''t0'' c1_id MAJOR ''peer down'' (Some ''t1'') None (Some [c0_id]) None"

definition long_text :: string where
  "long_text = replicate 1025 (CHR ''a'')"

section \<open>Lemmas on the model\<close>

lemmas example_defs =
  c0_id_def c0_key_def minor_alarm_def clear_alarm_def raised_list_def cleared_list_def
  raised_entry_def cleared_entry_def

lemmas model_defs =
  Alarm_init_def cleared_def cleared_setter_def ncs_severity_def py_ne_def
  alarm_list_exists_def alarm_list_create_def new_entry_def nothing_changed_def
  write_entry_def submit_alarm_def store_after_def status_change_create_def
  new_status_change_def related_alarms_create_def related_key_of_def

lemma py_ne_int_enum: "py_ne (PyInt n) (PyEnum s)"
  by (simp add: py_ne_def)

lemma raised_list_c0: "raised_list c0_key = Some raised_entry"
  by (simp add: example_defs model_defs)

lemma raised_list_eq: "raised_list = [c0_key \<mapsto> raised_entry]"
  by (simp add: example_defs model_defs)

lemma cleared_list_eq: "cleared_list = [c0_key \<mapsto> cleared_entry]"
  unfolding cleared_list_def raised_list_eq
  by (simp add: c0_id_def c0_key_def clear_alarm_def raised_entry_def cleared_entry_def model_defs)

lemma minor_alarm_key:
  "(device minor_alarm, type minor_alarm, managed_object minor_alarm,
    or_empty (specific_problem minor_alarm)) = c0_key"
  by (simp add: example_defs Alarm_init_def)

lemma clear_alarm_key:
  "(device clear_alarm, type clear_alarm, managed_object clear_alarm,
    or_empty (specific_problem clear_alarm)) = c0_key"
  by (simp add: example_defs Alarm_init_def cleared_setter_def)

lemma status_change_write_keys: "map fst (status_change_write f t scs) = map fst scs"
  by (induction scs) auto

lemma status_change_write_new:
  "t \<notin> set (map fst scs) \<Longrightarrow> status_change_write f t (scs @ [(t, sc)]) = scs @ [(t, f sc)]"
  by (induction scs) auto

lemma status_change_write_map_of:
  "map_of (status_change_write f t scs) t = map_option f (map_of scs t)"
  by (induction scs) auto

lemma status_change_create_map_of:
  "map_of (status_change_create scs t) t =
     Some (case map_of scs t of None \<Rightarrow> new_status_change | Some sc \<Rightarrow> sc)"
proof (cases "map_of scs t")
  case None
  then have "t \<notin> set (map fst scs)" by (simp add: map_of_eq_None_iff)
  with None show ?thesis
    by (simp add: status_change_create_def map_add_def del: set_map)
next
  case (Some sc)
  then have "t \<in> set (map fst scs)"
    by (metis map_of_eq_None_iff option.distinct(1) set_map)
  with Some show ?thesis
    by (simp add: status_change_create_def del: set_map)
qed

lemma status_change_written:
  "map_of (status_change_write f t (status_change_create scs t)) t
     = Some (f (case map_of scs t of None \<Rightarrow> new_status_change | Some sc \<Rightarrow> sc))"
  by (simp add: status_change_write_map_of status_change_create_map_of)

lemma write_entry_status_change:
  "status_change (write_entry al alarm) =
     status_change_write
       (\<lambda>sc. sc\<lparr>perceived_severity := Some (ncs_severity alarm),
                sc_alarm_text := Some (alarm_text alarm)\<rparr>)
       (timestamp alarm) (status_change_create (status_change al) (timestamp alarm))"
  by (simp add: write_entry_def Let_def split: option.split)

lemma write_entry_leaves:
  "is_cleared (write_entry al alarm) = Some (cleared alarm)"
  "last_alarm_text (write_entry al alarm) = Some (alarm_text alarm)"
  "last_perceived_severity (write_entry al alarm) = Some (ncs_severity alarm)"
  "last_status_change (write_entry al alarm) = Some (timestamp alarm)"
  "al_impacted_objects (write_entry al alarm) = impacted_objects alarm"
  "al_root_cause_objects (write_entry al alarm) = root_cause_objects alarm"
  by (simp_all add: write_entry_def Let_def py_ne_int_enum split: option.split)

lemma nothing_changed_written: "nothing_changed (write_entry al alarm) alarm = Inr True"
  by (simp add: nothing_changed_def write_entry_leaves)

lemma submit_alarm_cases:
  "submit_alarm s a = Inr Returned \<or> (\<exists>e. submit_alarm s a = Inl e) \<or>
   submit_alarm s a =
     Inr (Applied (s((device a, type a, managed_object a, or_empty (specific_problem a)) \<mapsto>
       write_entry (alarm_list_create s
         (device a, type a, managed_object a, or_empty (specific_problem a))) a)))"
  by (simp add: submit_alarm_def Let_def split: sum.split bool.split)

lemma submit_alarm_after_applied:
  "submit_alarm
     (s((device a, type a, managed_object a, or_empty (specific_problem a)) \<mapsto> write_entry al a)) a
   = Inr Returned"
  by (simp add: submit_alarm_def Let_def alarm_list_exists_def alarm_list_create_def
      nothing_changed_written)

lemma submit_alarm_twice:
  "store_after (store_after s (submit_alarm s a))
     (submit_alarm (store_after s (submit_alarm s a)) a)
   = store_after s (submit_alarm s a)"
  using submit_alarm_cases [of s a]
  by (auto simp: store_after_def submit_alarm_after_applied)

lemma submit_cleared_keeps_cleared_entry:
  assumes "s key = Some al" and "is_cleared al = Some True" and "cleared a"
  shows "store_after s (submit_alarm s a) key = Some al"
proof (cases "(device a, type a, managed_object a, or_empty (specific_problem a)) = key")
  case True
  with assms have "submit_alarm s a = Inr Returned"
    by (auto simp: submit_alarm_def Let_def alarm_list_exists_def alarm_list_create_def
        nothing_changed_def)
  with assms(1) show ?thesis by (simp add: store_after_def)
next
  case False
  then show ?thesis
    using submit_alarm_cases [of s a] assms(1) by (auto simp: store_after_def)
qed

lemma submit_all_cleared_keeps_cleared_entry:
  "s key = Some al \<Longrightarrow> is_cleared al = Some True \<Longrightarrow> list_all cleared alarms \<Longrightarrow>
   foldl (\<lambda>s a. store_after s (submit_alarm s a)) s alarms key = Some al"
  by (induction alarms arbitrary: s) (simp_all add: submit_cleared_keeps_cleared_entry)

lemma related_alarms_create_keeps:
  "k \<in> set rs \<Longrightarrow> k \<in> set (foldl related_alarms_create rs ks)"
  by (induction ks arbitrary: rs) (simp_all add: related_alarms_create_def)

lemma related_alarms_create_all:
  "k \<in> set ks \<Longrightarrow> k \<in> set (foldl related_alarms_create rs ks)"
proof (induction ks arbitrary: rs)
  case Nil
  then show ?case by simp
next
  case (Cons x ks)
  show ?case
  proof (cases "k = x")
    case True
    have "k \<in> set (related_alarms_create rs k)"
      by (simp add: related_alarms_create_def)
    then show ?thesis using True by (simp add: related_alarms_create_keeps)
  next
    case False
    with Cons show ?thesis by simp
  qed
qed

lemma write_entry_related_alarms:
  "related_alarms alarm = Some ras \<Longrightarrow>
   al_related_alarms (write_entry al alarm) =
     foldl related_alarms_create (al_related_alarms al) (map related_key_of ras)"
  by (simp add: write_entry_def Let_def py_ne_int_enum)

text \<open>
  What the setter of \<^verbatim>\<open>alarm_text\<close> stores: a longer text is cut to 1024 characters that
  end with the marker, any other text is stored as it is.
\<close>

lemma alarm_text_setter_truncates:
  "length v > max_length \<Longrightarrow>
     length (alarm_text (alarm_text_setter alarm v)) = 1024 \<and>
     drop (1024 - length truncated) (alarm_text (alarm_text_setter alarm v)) = truncated"
  by (simp add: alarm_text_setter_def max_length_def truncated_def)

lemma alarm_text_setter_keeps:
  "length v \<le> max_length \<Longrightarrow> alarm_text (alarm_text_setter alarm v) = v"
  by (simp add: alarm_text_setter_def)

section \<open>The claims\<close>

text \<open>
  C1. The claim: a submission with \<open>cleared\<close> true leaves the entry's
  \<open>last_perceived_severity\<close> as it was. The code does not: the guard of the write
  compares \<^verbatim>\<open>alarm.ncs_severity\<close>, an integer, with the enumeration member
  \<^verbatim>\<open>PerceivedSeverity.CLEARED\<close>, which are never equal, so the severity is written on
  every update. Here the alarm raised with MINOR (code 3) is cleared, and the entry's
  last severity becomes code 1.
\<close>

theorem clearing_overwrites_last_severity:
  "raised_list c0_key = Some raised_entry \<and>
   last_perceived_severity raised_entry = Some (severity_value MINOR) \<and>
   cleared clear_alarm \<and>
   map_option last_perceived_severity
     (store_after raised_list (submit_alarm raised_list clear_alarm) c0_key)
     = Some (Some (severity_value CLEARED))"
  unfolding raised_list_eq
  by (simp add: c0_id_def c0_key_def clear_alarm_def raised_entry_def model_defs)

text \<open>
  C2. The claim: the constructor fails when it is given the severity CLEARED. The code
  has no such check in \<^verbatim>\<open>__init__\<close>: it returns an alarm whose severity is CLEARED
  and which reads as cleared, whatever the other arguments.
\<close>

theorem init_accepts_cleared:
  "severity (Alarm_init now alarm_id CLEARED text ts impacted related root_cause) = CLEARED \<and>
   cleared (Alarm_init now alarm_id CLEARED text ts impacted related root_cause)"
  by (simp add: Alarm_init_def cleared_def)

text \<open>
  C3. The claim: a text of more than 1024 characters is stored as 1024 characters
  ending with the marker, at construction and on assignment. Assignment does so
  (\<open>alarm_text_setter_truncates\<close>); the constructor stores the text it is given, here
  1025 characters.
\<close>

theorem init_keeps_long_text:
  "alarm_text (Alarm_init now alarm_id sev long_text ts impacted related root_cause) = long_text \<and>
   length long_text = 1025 \<and>
   length long_text > max_length"
  by (simp add: Alarm_init_def long_text_def max_length_def)

text \<open>
  C4. A cleared alarm with no entry in the alarm list: \<open>submit_alarm\<close> returns without
  applying the transaction, and the alarm list stays as it was.
\<close>

theorem submit_cleared_absent_noop:
  assumes "cleared alarm"
    and "alarm_list (device alarm, type alarm, managed_object alarm,
                     or_empty (specific_problem alarm)) = None"
  shows "submit_alarm alarm_list alarm = Inr Returned \<and>
         store_after alarm_list (submit_alarm alarm_list alarm) = alarm_list"
  using assms by (simp add: submit_alarm_def alarm_list_exists_def store_after_def)

theorem submit_cleared_absent_noop_witness:
  "cleared clear_alarm \<and>
   submit_alarm Map.empty clear_alarm = Inr Returned \<and>
   store_after Map.empty (submit_alarm Map.empty clear_alarm) = Map.empty"
proof -
  have h1: "cleared clear_alarm"
    by (simp add: clear_alarm_def cleared_setter_def cleared_def)
  have h2: "(Map.empty :: alarm_list)
              (device clear_alarm, type clear_alarm, managed_object clear_alarm,
               or_empty (specific_problem clear_alarm)) = None"
    by simp
  show ?thesis
    using h1 submit_cleared_absent_noop [where alarm = clear_alarm and alarm_list = Map.empty, OF h1 h2]
    by blast
qed

text \<open>
  C5. When the entry's \<open>is_cleared\<close> equals the alarm's \<open>cleared\<close> and the alarm is
  cleared or the entry's last severity code and last text are the alarm's,
  \<open>submit_alarm\<close> returns without applying anything, so no leaf is written and no
  status change is created. And from any alarm list, submitting an alarm a second time
  leaves the alarm list the first submission left.
\<close>

theorem submit_unchanged_noop:
  assumes "alarm_list (device alarm, type alarm, managed_object alarm,
                       or_empty (specific_problem alarm)) = Some al"
    and "is_cleared al = Some (cleared alarm)"
    and "cleared alarm \<or>
         (last_perceived_severity al = Some (ncs_severity alarm) \<and>
          last_alarm_text al = Some (alarm_text alarm))"
  shows "submit_alarm alarm_list alarm = Inr Returned \<and>
         store_after alarm_list (submit_alarm alarm_list alarm) = alarm_list \<and>
         (\<forall>s. store_after (store_after s (submit_alarm s alarm))
                (submit_alarm (store_after s (submit_alarm s alarm)) alarm)
              = store_after s (submit_alarm s alarm))"
proof -
  have r: "submit_alarm alarm_list alarm = Inr Returned"
    using assms
    by (auto simp: submit_alarm_def Let_def alarm_list_exists_def alarm_list_create_def
        nothing_changed_def)
  then have "store_after alarm_list (submit_alarm alarm_list alarm) = alarm_list"
    by (simp add: store_after_def)
  with r show ?thesis by (simp add: submit_alarm_twice)
qed

theorem submit_unchanged_noop_witness:
  "submit_alarm raised_list minor_alarm = Inr Returned \<and>
   store_after raised_list (submit_alarm raised_list minor_alarm) = raised_list \<and>
   store_after (store_after Map.empty (submit_alarm Map.empty minor_alarm))
     (submit_alarm (store_after Map.empty (submit_alarm Map.empty minor_alarm)) minor_alarm)
   = store_after Map.empty (submit_alarm Map.empty minor_alarm)"
proof -
  have h1: "raised_list (device minor_alarm, type minor_alarm, managed_object minor_alarm,
                         or_empty (specific_problem minor_alarm)) = Some raised_entry"
    by (simp add: minor_alarm_key raised_list_c0)
  have h2: "is_cleared raised_entry = Some (cleared minor_alarm)"
    by (simp add: raised_entry_def minor_alarm_def Alarm_init_def cleared_def)
  have h3: "cleared minor_alarm \<or>
            (last_perceived_severity raised_entry = Some (ncs_severity minor_alarm) \<and>
             last_alarm_text raised_entry = Some (alarm_text minor_alarm))"
    by (simp add: raised_entry_def minor_alarm_def Alarm_init_def ncs_severity_def)
  show ?thesis
    using submit_unchanged_noop
      [where alarm_list = raised_list and alarm = minor_alarm and al = raised_entry, OF h1 h2 h3]
    by blast
qed

text \<open>
  C6 (amended). The claim: for an entry with \<open>is_cleared\<close> true and an alarm that is
  not cleared, \<open>submit_alarm\<close> always applies an update and appends one status change.
  The update is always applied, but the status change is created under the alarm's
  timestamp: when the entry already has a status change with that timestamp, that one
  is overwritten and none is appended. Here the raised alarm of time \<open>t1\<close> is submitted
  again after the clear: the transaction is applied and the status changes are the two
  there were.
\<close>

theorem submit_after_clear_same_timestamp:
  "cleared_list c0_key = Some cleared_entry \<and>
   is_cleared cleared_entry = Some True \<and>
   \<not> cleared minor_alarm \<and>
   submit_alarm cleared_list minor_alarm =
     Inr (Applied (cleared_list(c0_key \<mapsto> write_entry cleared_entry minor_alarm))) \<and>
   status_change (write_entry cleared_entry minor_alarm) = status_change cleared_entry"
  unfolding cleared_list_eq
  by (simp add: c0_id_def c0_key_def minor_alarm_def cleared_entry_def model_defs)

text \<open>
  C6, as amended: for every entry with \<open>is_cleared\<close> true and every alarm that is not
  cleared, whatever the entry's last text and severity, \<open>submit_alarm\<close> applies the
  transaction with the entry written: \<open>is_cleared\<close> false, the last text, severity
  code and status change time of the alarm, and a status change under the alarm's
  timestamp with its severity code and text. That status change is appended when the
  entry had none with this timestamp; otherwise the one with this timestamp is
  overwritten and the times of the status changes stay as they were.
\<close>

theorem submit_after_clear_updates:
  assumes "alarm_list (device alarm, type alarm, managed_object alarm,
                       or_empty (specific_problem alarm)) = Some al"
    and "is_cleared al = Some True"
    and "\<not> cleared alarm"
  shows "submit_alarm alarm_list alarm =
           Inr (Applied (alarm_list((device alarm, type alarm, managed_object alarm,
                                     or_empty (specific_problem alarm)) \<mapsto> write_entry al alarm))) \<and>
         is_cleared (write_entry al alarm) = Some False \<and>
         last_alarm_text (write_entry al alarm) = Some (alarm_text alarm) \<and>
         last_perceived_severity (write_entry al alarm) = Some (ncs_severity alarm) \<and>
         last_status_change (write_entry al alarm) = Some (timestamp alarm) \<and>
         map_of (status_change (write_entry al alarm)) (timestamp alarm) =
           Some \<lparr>perceived_severity = Some (ncs_severity alarm),
                 sc_alarm_text = Some (alarm_text alarm)\<rparr> \<and>
         (if timestamp alarm \<in> set (map fst (status_change al))
          then map fst (status_change (write_entry al alarm)) = map fst (status_change al)
          else status_change (write_entry al alarm) =
                 status_change al @
                 [(timestamp alarm, \<lparr>perceived_severity = Some (ncs_severity alarm),
                                      sc_alarm_text = Some (alarm_text alarm)\<rparr>)])"
proof -
  have "submit_alarm alarm_list alarm =
          Inr (Applied (alarm_list((device alarm, type alarm, managed_object alarm,
                                    or_empty (specific_problem alarm)) \<mapsto> write_entry al alarm)))"
    using assms
    by (simp add: submit_alarm_def Let_def alarm_list_exists_def alarm_list_create_def
        nothing_changed_def)
  moreover have "map_of (status_change (write_entry al alarm)) (timestamp alarm) =
           Some \<lparr>perceived_severity = Some (ncs_severity alarm),
                 sc_alarm_text = Some (alarm_text alarm)\<rparr>"
    by (simp add: write_entry_status_change status_change_written)
  moreover have "timestamp alarm \<in> set (map fst (status_change al)) \<Longrightarrow>
      map fst (status_change (write_entry al alarm)) = map fst (status_change al)"
    by (simp add: write_entry_status_change status_change_write_keys status_change_create_def
        del: set_map)
  moreover have "timestamp alarm \<notin> set (map fst (status_change al)) \<Longrightarrow>
      status_change (write_entry al alarm) =
                 status_change al @
                 [(timestamp alarm, \<lparr>perceived_severity = Some (ncs_severity alarm),
                                      sc_alarm_text = Some (alarm_text alarm)\<rparr>)]"
    by (simp add: write_entry_status_change status_change_write_new status_change_create_def
        new_status_change_def del: set_map)
  ultimately show ?thesis
    using assms(3) by (simp add: write_entry_leaves del: set_map)
qed

theorem submit_after_clear_updates_witness:
  "submit_alarm cleared_list major_alarm =
     Inr (Applied (cleared_list(c0_key \<mapsto> write_entry cleared_entry major_alarm))) \<and>
   is_cleared (write_entry cleared_entry major_alarm) = Some False \<and>
   last_perceived_severity (write_entry cleared_entry major_alarm) = Some 5 \<and>
   status_change (write_entry cleared_entry major_alarm) =
     status_change cleared_entry @
     [(''t3'', \<lparr>perceived_severity = Some 5, sc_alarm_text = Some ''link down''\<rparr>)]"
proof -
  have k: "(device major_alarm, type major_alarm, managed_object major_alarm,
            or_empty (specific_problem major_alarm)) = c0_key"
    by (simp add: major_alarm_def c0_id_def c0_key_def Alarm_init_def)
  have h1: "cleared_list (device major_alarm, type major_alarm, managed_object major_alarm,
                          or_empty (specific_problem major_alarm)) = Some cleared_entry"
    by (simp add: k cleared_list_eq)
  have h2: "is_cleared cleared_entry = Some True"
    by (simp add: cleared_entry_def)
  have h3: "\<not> cleared major_alarm"
    by (simp add: major_alarm_def Alarm_init_def cleared_def)
  have v: "ncs_severity major_alarm = 5" "alarm_text major_alarm = ''link down''"
    "timestamp major_alarm = ''t3''"
    by (simp_all add: major_alarm_def Alarm_init_def ncs_severity_def)
  have t: "timestamp major_alarm \<notin> set (map fst (status_change cleared_entry))"
    by (simp add: v cleared_entry_def)
  show ?thesis
    using submit_after_clear_updates
      [where alarm_list = cleared_list and alarm = major_alarm and al = cleared_entry,
        OF h1 h2 h3] t
    by (simp add: k v del: set_map)
qed

text \<open>
  C7. \<open>purge_alarm\<close> never raises. With no entry under the key it returns without
  applying the transaction and the alarm list is unchanged; with an entry it applies
  the transaction that deletes it. Either way a lookup of the key after the purge finds
  nothing.
\<close>

theorem purge_alarm_idempotent_delete:
  "(\<forall>e. purge_alarm alarm_list alarm_id \<noteq> Inl e) \<and>
   (alarm_list (device alarm_id, type alarm_id, managed_object alarm_id,
                or_empty (specific_problem alarm_id)) = None \<longrightarrow>
      purge_alarm alarm_list alarm_id = Inr Returned \<and>
      store_after alarm_list (purge_alarm alarm_list alarm_id) = alarm_list) \<and>
   (alarm_list (device alarm_id, type alarm_id, managed_object alarm_id,
                or_empty (specific_problem alarm_id)) \<noteq> None \<longrightarrow>
      purge_alarm alarm_list alarm_id =
        Inr (Applied (alarm_list((device alarm_id, type alarm_id, managed_object alarm_id,
                                  or_empty (specific_problem alarm_id)) := None)))) \<and>
   store_after alarm_list (purge_alarm alarm_list alarm_id)
     (device alarm_id, type alarm_id, managed_object alarm_id,
      or_empty (specific_problem alarm_id)) = None"
  by (auto simp: purge_alarm_def alarm_list_del_def store_after_def)

theorem purge_alarm_idempotent_delete_witness:
  "purge_alarm Map.empty c0_id = Inr Returned \<and>
   store_after Map.empty (purge_alarm Map.empty c0_id) = Map.empty \<and>
   purge_alarm raised_list c0_id = Inr (Applied (raised_list(c0_key := None))) \<and>
   store_after raised_list (purge_alarm raised_list c0_id) c0_key = None"
proof -
  have k: "(device c0_id, type c0_id, managed_object c0_id, or_empty (specific_problem c0_id))
             = c0_key"
    by (simp add: c0_id_def c0_key_def)
  have e: "(Map.empty :: alarm_list) c0_key = None" by simp
  have r: "raised_list c0_key \<noteq> None" by (simp add: raised_list_c0)
  show ?thesis
    using purge_alarm_idempotent_delete [of Map.empty c0_id]
      purge_alarm_idempotent_delete [of raised_list c0_id] e r
    unfolding k by blast
qed




text \<open>
  C9. For an entry with \<open>is_cleared\<close> true, a submission of a cleared alarm returns
  without applying anything, whatever its text, and the entry (its last text and its
  status changes with it) is the same after any submission of a cleared alarm, and so
  after any sequence of them.
\<close>

theorem submit_cleared_on_cleared_noop:
  assumes "alarm_list key = Some al"
    and "is_cleared al = Some True"
    and "cleared alarm"
    and "list_all cleared alarms"
  shows "((device alarm, type alarm, managed_object alarm, or_empty (specific_problem alarm)) = key
            \<longrightarrow> submit_alarm alarm_list alarm = Inr Returned) \<and>
         store_after alarm_list (submit_alarm alarm_list alarm) key = Some al \<and>
         foldl (\<lambda>s a. store_after s (submit_alarm s a)) alarm_list alarms key = Some al"
proof -
  have "submit_alarm alarm_list alarm = Inr Returned"
    if "(device alarm, type alarm, managed_object alarm, or_empty (specific_problem alarm)) = key"
    using assms(1-3) that
    by (auto simp: submit_alarm_def Let_def alarm_list_exists_def alarm_list_create_def
        nothing_changed_def)
  then show ?thesis
    using assms
    by (simp add: submit_cleared_keeps_cleared_entry submit_all_cleared_keeps_cleared_entry)
qed

theorem submit_cleared_on_cleared_noop_witness:
  "alarm_text clear_alarm_up = ''link up'' \<and>
   last_alarm_text cleared_entry = Some ''link down'' \<and>
   submit_alarm cleared_list clear_alarm_up = Inr Returned \<and>
   store_after cleared_list (submit_alarm cleared_list clear_alarm_up) c0_key = Some cleared_entry \<and>
   foldl (\<lambda>s a. store_after s (submit_alarm s a)) cleared_list [clear_alarm_up, clear_alarm] c0_key
     = Some cleared_entry"
proof -
  have k: "(device clear_alarm_up, type clear_alarm_up, managed_object clear_alarm_up,
            or_empty (specific_problem clear_alarm_up)) = c0_key"
    by (simp add: clear_alarm_up_def c0_id_def c0_key_def Alarm_init_def cleared_setter_def)
  have h1: "cleared_list c0_key = Some cleared_entry"
    by (simp add: cleared_list_eq)
  have h2: "is_cleared cleared_entry = Some True"
    by (simp add: cleared_entry_def)
  have h3: "cleared clear_alarm_up"
    by (simp add: clear_alarm_up_def cleared_setter_def cleared_def)
  have h4: "list_all cleared [clear_alarm_up, clear_alarm]"
    by (simp add: clear_alarm_up_def clear_alarm_def cleared_setter_def cleared_def)
  have t: "alarm_text clear_alarm_up = ''link up''"
    "last_alarm_text cleared_entry = Some ''link down''"
    by (simp_all add: clear_alarm_up_def cleared_setter_def Alarm_init_def cleared_entry_def)
  show ?thesis
    using submit_cleared_on_cleared_noop
      [where alarm_list = cleared_list and key = c0_key and al = cleared_entry
         and alarm = clear_alarm_up and alarms = "[clear_alarm_up, clear_alarm]",
        OF h1 h2 h3 h4] k t
    by blast
qed

text \<open>
  C10. In an applied submission the alarm's own entry is under the key whose fourth
  component is \<open>specific_problem\<close> with \<open>None\<close> turned into the empty string, while each
  related alarm is created under the key that carries its \<open>specific_problem\<close> as it
  is: for a related alarm without specific problem that is \<open>None\<close>, not the empty
  string of the alarm list key.
\<close>

theorem related_alarms_keyed_raw:
  assumes "submit_alarm alarm_list alarm = Inr (Applied alarm_list')"
    and "related_alarms alarm = Some ras"
    and "ra \<in> set ras"
  shows "(\<exists>al'. alarm_list' (device alarm, type alarm, managed_object alarm,
                           or_empty (specific_problem alarm)) = Some al' \<and>
               (device ra, type ra, managed_object ra, specific_problem ra)
                 \<in> set (al_related_alarms al')) \<and>
         or_empty None = [] \<and>
         (specific_problem ra = None \<longrightarrow>
            (device ra, type ra, managed_object ra, specific_problem ra)
              \<noteq> (device ra, type ra, managed_object ra, Some (or_empty (specific_problem ra))))"
proof -
  let ?key = "(device alarm, type alarm, managed_object alarm, or_empty (specific_problem alarm))"
  let ?al = "alarm_list_create alarm_list ?key"
  have "alarm_list' = alarm_list(?key \<mapsto> write_entry ?al alarm)"
    using submit_alarm_cases [of alarm_list alarm] assms(1) by auto
  moreover have "related_key_of ra \<in> set (al_related_alarms (write_entry ?al alarm))"
    using assms(2,3) by (simp add: write_entry_related_alarms related_alarms_create_all)
  ultimately show ?thesis
    by (simp add: related_key_of_def)
qed

theorem related_alarms_keyed_raw_witness:
  "specific_problem c0_id = None \<and>
   (\<exists>al'. store_after Map.empty (submit_alarm Map.empty c1_alarm)
            (''c1'', ''connection-failure'', ''/devices/device{c1}'', []) = Some al' \<and>
          (''c0'', ''connection-failure'', ''/devices/device{c0}'', None)
            \<in> set (al_related_alarms al'))"
proof -
  let ?l = "store_after Map.empty (submit_alarm Map.empty c1_alarm)"
  have h1: "submit_alarm Map.empty c1_alarm = Inr (Applied ?l)"
    by (simp add: c1_alarm_def c1_id_def c0_id_def model_defs)
  have h2: "related_alarms c1_alarm = Some [c0_id]"
    by (simp add: c1_alarm_def Alarm_init_def)
  have h3: "c0_id \<in> set [c0_id]" by simp
  have k: "(device c1_alarm, type c1_alarm, managed_object c1_alarm,
            or_empty (specific_problem c1_alarm))
           = (''c1'', ''connection-failure'', ''/devices/device{c1}'', [])"
    by (simp add: c1_alarm_def c1_id_def Alarm_init_def)
  have r: "(device c0_id, type c0_id, managed_object c0_id, specific_problem c0_id)
           = (''c0'', ''connection-failure'', ''/devices/device{c0}'', None)"
    "specific_problem c0_id = None"
    by (simp_all add: c0_id_def)
  show ?thesis
    using related_alarms_keyed_raw [OF h1 h2 h3] r unfolding k by simp
qed

end
